theory Spec2Isabelle
  imports Complex_Main
begin

section \<open>Errors\<close>

text \<open>
  Every exception the notebook's code can raise is a value of \<open>error\<close>; a function that
  can raise returns \<open>error + 'a\<close> with \<open>Inl\<close> for the exception.
  The first six are the \<open>RuntimeError\<close>s and the \<open>IndexError\<close> of the tensor library,
  told apart by their cause; the last three are Python's own.
\<close>

datatype error =
    NotAMatrix          \<comment> \<open>RuntimeError of \<open>mm\<close>: an argument is not 2-dimensional\<close>
  | SizeMismatch        \<comment> \<open>RuntimeError of \<open>mm\<close>: the inner dimensions differ\<close>
  | NotExpandable       \<comment> \<open>RuntimeError of \<open>expand\<close> and of a broadcasting in-place operation\<close>
  | TooManyDims         \<comment> \<open>RuntimeError of \<open>t\<close>: more than 2 dimensions\<close>
  | NegativeDimension   \<comment> \<open>RuntimeError of the tensor constructor\<close>
  | DimOutOfRange       \<comment> \<open>IndexError: dimension argument out of range\<close>
  | AttributeError string
  | TypeError
  | ValueError

definition ebind :: "error + 'a \<Rightarrow> ('a \<Rightarrow> error + 'b) \<Rightarrow> error + 'b" where
  "ebind r f = (case r of Inl e \<Rightarrow> Inl e | Inr x \<Rightarrow> f x)"

section \<open>Tensors of the library, as views of storages\<close>

text \<open>
  A tensor of the library is a view of a storage: the storage it reads, an offset into
  it, a shape and one stride per dimension. Several tensors may share one storage
  (\<open>t\<close>, \<open>unsqueeze\<close>, \<open>expand_as\<close> and \<open>squeeze\<close> return views), and an in-place
  operation writes the storage. The store is the list of all storages; the address of a
  storage is its position, and a new storage is appended. The operations are those of
  the tensor library the notebook imports, modelled from the library's documented
  behaviour.

  Entries are modelled as reals. The library computes in 32-bit floating point, and
  the rounding of its kernels and the order in which they accumulate are not modelled:
  the model agrees with the library on shapes, views, storages and errors, and on the
  entries only where the library's arithmetic is exact, as on the small integers of
  the examples. The theorems below are about shapes, errors, absent results and
  unchanged storages, about entries of such examples, and about the equality of the
  entries of two runs. Where a lemma describes the entries the model computes
  (\<open>backward_run\<close>), it serves only to compare two runs of the model.
\<close>

type_synonym store = "real list list"

record tensor =
  storage :: nat
  storage_offset :: nat
  shape :: "nat list"
  stride :: "nat list"

definition offs :: "tensor \<Rightarrow> nat list \<Rightarrow> nat" where
  "offs T idx = storage_offset T + sum_list (map2 (*) idx (stride T))"

definition elem :: "store \<Rightarrow> tensor \<Rightarrow> nat list \<Rightarrow> real" where
  "elem st T idx = st ! storage T ! offs T idx"

text \<open>All indices of a shape, in row-major order.\<close>

fun indices :: "nat list \<Rightarrow> nat list list" where
  "indices [] = [[]]"
| "indices (d # ds) = concat (map (\<lambda>i. map ((#) i) (indices ds)) [0..<d])"

definition valid :: "store \<Rightarrow> tensor \<Rightarrow> bool" where
  "valid st T \<longleftrightarrow>
     storage T < length st \<and> length (stride T) = length (shape T) \<and>
     list_all (\<lambda>idx. offs T idx < length (st ! storage T)) (indices (shape T))"

fun contiguous_stride :: "nat list \<Rightarrow> nat list" where
  "contiguous_stride [] = []"
| "contiguous_stride (d # ds) = prod_list ds # contiguous_stride ds"

definition alloc :: "store \<Rightarrow> nat list \<Rightarrow> real list \<Rightarrow> store \<times> tensor" where
  "alloc st shp xs =
     (st @ [xs],
      \<lparr>storage = length st, storage_offset = 0, shape = shp, stride = contiguous_stride shp\<rparr>)"

text \<open>Writing values at positions of a storage, in order.\<close>

definition scatter :: "real list \<Rightarrow> nat list \<Rightarrow> real list \<Rightarrow> real list" where
  "scatter xs ps vs = fold (\<lambda>(p, v) ys. ys[p := v]) (zip ps vs) xs"

subsection \<open>The operations the notebook calls\<close>

text \<open>
  \<open>Tensor.t()\<close>: a tensor of at most one dimension is returned as it is, a matrix is
  returned as the view with its two dimensions swapped, anything else is refused.
\<close>

definition torch_t :: "tensor \<Rightarrow> error + tensor" where
  "torch_t T =
     (if length (shape T) \<le> 1 then Inr T
      else if length (shape T) = 2
        then Inr (T\<lparr>shape := rev (shape T), stride := rev (stride T)\<rparr>)
      else Inl TooManyDims)"

text \<open>
  \<open>Tensor.mm(mat2)\<close>: the matrix product of two matrices, in a new storage. Both
  arguments must have two dimensions, and the columns of the first must be the rows
  of the second.
\<close>

definition torch_mm :: "store \<Rightarrow> tensor \<Rightarrow> tensor \<Rightarrow> error + (store \<times> tensor)" where
  "torch_mm st A B =
     (if length (shape A) \<noteq> 2 \<or> length (shape B) \<noteq> 2 then Inl NotAMatrix
      else if shape A ! 1 \<noteq> shape B ! 0 then Inl SizeMismatch
      else
        let m = shape A ! 0; n = shape A ! 1; k = shape B ! 1
        in Inr (alloc st [m, k]
             (concat (map (\<lambda>i. map (\<lambda>j. \<Sum>l\<leftarrow>[0..<n]. elem st A [i, l] * elem st B [l, j])
                [0..<k]) [0..<m]))))"

text \<open>
  \<open>Tensor.unsqueeze(dim)\<close>: the view with a dimension of size 1 inserted at \<open>dim\<close>.
\<close>

definition torch_unsqueeze :: "nat \<Rightarrow> tensor \<Rightarrow> error + tensor" where
  "torch_unsqueeze d T =
     (if length (shape T) < d then Inl DimOutOfRange
      else Inr (T\<lparr>shape := take d (shape T) @ [1] @ drop d (shape T),
                  stride := take d (stride T)
                    @ [if d < length (shape T) then shape T ! d * stride T ! d else 1]
                    @ drop d (stride T)\<rparr>))"

text \<open>
  \<open>Tensor.expand(sizes)\<close>: the view of the wanted shape. Dimensions are matched from
  the last one; a dimension keeps its stride when the sizes agree and gets stride 0
  when its size is 1; new leading dimensions get stride 0; anything else is refused.
  The three lists of \<open>expand_strides\<close> are reversed: shape, strides, wanted shape.
\<close>

fun expand_strides :: "nat list \<Rightarrow> nat list \<Rightarrow> nat list \<Rightarrow> nat list option" where
  "expand_strides [] [] ts = Some (replicate (length ts) 0)"
| "expand_strides (d # ds) (s # ss) (t # ts) =
     (if d = t then map_option ((#) s) (expand_strides ds ss ts)
      else if d = 1 then map_option ((#) 0) (expand_strides ds ss ts)
      else None)"
| "expand_strides _ _ _ = None"

definition torch_expand :: "tensor \<Rightarrow> nat list \<Rightarrow> error + tensor" where
  "torch_expand T sizes =
     (case expand_strides (rev (shape T)) (rev (stride T)) (rev sizes) of
        None \<Rightarrow> Inl NotExpandable
      | Some ss \<Rightarrow> Inr (T\<lparr>shape := sizes, stride := rev ss\<rparr>))"

definition torch_expand_as :: "tensor \<Rightarrow> tensor \<Rightarrow> error + tensor" where
  "torch_expand_as T other = torch_expand T (shape other)"

text \<open>
  \<open>a += b\<close> on tensors: \<open>b\<close> is broadcast to the shape of \<open>a\<close> (refused when it
  cannot be), the sums are computed, and they are written into the storage of \<open>a\<close>.
\<close>

definition torch_iadd :: "store \<Rightarrow> tensor \<Rightarrow> tensor \<Rightarrow> error + store" where
  "torch_iadd st A B =
     (case torch_expand B (shape A) of
        Inl e \<Rightarrow> Inl e
      | Inr B' \<Rightarrow>
          let idxs = indices (shape A);
              vals = map (\<lambda>idx. elem st A idx + elem st B' idx) idxs
          in Inr (st[storage A := scatter (st ! storage A) (map (offs A) idxs) vals]))"

text \<open>
  \<open>Tensor.sum(dim)\<close>: the sums along dimension \<open>dim\<close>, in a new storage; the
  dimension is removed from the shape. A 0-dimensional tensor accepts \<open>dim = 0\<close>.
\<close>

definition torch_sum :: "store \<Rightarrow> nat \<Rightarrow> tensor \<Rightarrow> error + (store \<times> tensor)" where
  "torch_sum st d T =
     (if shape T = [] then (if d = 0 then Inr (alloc st [] [elem st T []]) else Inl DimOutOfRange)
      else if length (shape T) \<le> d then Inl DimOutOfRange
      else
        let shp = take d (shape T) @ drop (Suc d) (shape T)
        in Inr (alloc st shp
             (map (\<lambda>idx. \<Sum>i\<leftarrow>[0..<shape T ! d]. elem st T (take d idx @ [i] @ drop d idx))
                (indices shp))))"

text \<open>
  \<open>Tensor.squeeze(dim)\<close>: the view without dimension \<open>dim\<close> when that dimension has
  size 1, the tensor itself otherwise.
\<close>

definition torch_squeeze :: "nat \<Rightarrow> tensor \<Rightarrow> error + tensor" where
  "torch_squeeze d T =
     (if shape T = [] then (if d = 0 then Inr T else Inl DimOutOfRange)
      else if length (shape T) \<le> d then Inl DimOutOfRange
      else if shape T ! d = 1
        then Inr (T\<lparr>shape := take d (shape T) @ drop (Suc d) (shape T),
                    stride := take d (stride T) @ drop (Suc d) (stride T)\<rparr>)
      else Inr T)"

section \<open>LinearFunction\<close>

text \<open>
  The context object of the autograd function: the tensors saved by
  \<open>save_for_backward\<close> (none before the call) and the three flags
  \<open>needs_input_grad\<close>, one per argument of \<open>forward\<close>.
\<close>

record ctx =
  saved_tensors :: "(tensor \<times> tensor \<times> tensor option) option"
  needs_input_grad :: "bool \<times> bool \<times> bool"

definition save_for_backward :: "ctx \<Rightarrow> tensor \<Rightarrow> tensor \<Rightarrow> tensor option \<Rightarrow> ctx" where
  "save_for_backward c input weight bias = c\<lparr>saved_tensors := Some (input, weight, bias)\<rparr>"

text \<open>
  \<^verbatim>\<open>
  def forward(ctx, input, weight, bias=None):
      ctx.save_for_backward(input, weight, bias)
      output = input.mm(weight.t())
      if bias is not None:
          output += bias.unsqueeze(0).expand_as(output)
      return output
  \<close>
  The model returns the store and the context with the output.
\<close>

definition forward ::
  "store \<Rightarrow> ctx \<Rightarrow> tensor \<Rightarrow> tensor \<Rightarrow> tensor option \<Rightarrow> error + (store \<times> ctx \<times> tensor)" where
  "forward st c input weight bias =
     (let c1 = save_for_backward c input weight bias in
      ebind (torch_t weight) (\<lambda>wt.
      ebind (torch_mm st input wt) (\<lambda>(st1, output).
      ebind (case bias of
               None \<Rightarrow> Inr st1
             | Some b \<Rightarrow>
                 ebind (torch_unsqueeze 0 b) (\<lambda>u.
                 ebind (torch_expand_as u output) (\<lambda>e.
                 torch_iadd st1 output e))) (\<lambda>st2.
      Inr (st2, c1, output)))))"

text \<open>
  \<^verbatim>\<open>
  def backward(ctx, grad_output):
      input, weight, bias = ctx.saved_tensors
      grad_input = grad_weight = grad_bias = None
      if ctx.needs_input_grad[0]:
          grad_input = grad_output.mm(weight)
      if ctx.needs_input_grad[1]:
          grad_weight = grad_output.t().mm(input)
      if bias is not None and ctx.needs_input_grad[2]:
          grad_bias = grad_output.sum(0).squeeze(0)
      return grad_input, grad_weight, grad_bias
  \<close>
  Unpacking the saved tensors of a context that saved none raises \<open>ValueError\<close>.
\<close>

definition backward ::
  "store \<Rightarrow> ctx \<Rightarrow> tensor \<Rightarrow>
   error + (store \<times> tensor option \<times> tensor option \<times> tensor option)" where
  "backward st c grad_output =
     (case saved_tensors c of
        None \<Rightarrow> Inl ValueError
      | Some (input, weight, bias) \<Rightarrow>
          ebind (if fst (needs_input_grad c)
                 then ebind (torch_mm st grad_output weight) (\<lambda>(s, g). Inr (s, Some g))
                 else Inr (st, None)) (\<lambda>(st1, grad_input).
          ebind (if fst (snd (needs_input_grad c))
                 then ebind (torch_t grad_output) (\<lambda>gt.
                      ebind (torch_mm st1 gt input) (\<lambda>(s, g). Inr (s, Some g)))
                 else Inr (st1, None)) (\<lambda>(st2, grad_weight).
          ebind (if bias \<noteq> None \<and> snd (snd (needs_input_grad c))
                 then ebind (torch_sum st2 0 grad_output) (\<lambda>(s, sm).
                      ebind (torch_squeeze 0 sm) (\<lambda>g. Inr (s, Some g)))
                 else Inr (st2, None)) (\<lambda>(st3, grad_bias).
          Inr (st3, grad_input, grad_weight, grad_bias)))))"

section \<open>The module Linear\<close>

text \<open>
  The values an attribute of the module or an argument of its constructor can hold.
  A parameter is a tensor registered with the module.
\<close>

datatype pyval = PyNone | PyBool bool | PyInt int | Parameter tensor

text \<open>
  The module object: its attributes by name. Reading a name that was never set raises
  \<open>AttributeError\<close>.
\<close>

type_synonym module = "string \<rightharpoonup> pyval"

definition getattr :: "module \<Rightarrow> string \<Rightarrow> error + pyval" where
  "getattr self name = (case self name of None \<Rightarrow> Inl (AttributeError name) | Some v \<Rightarrow> Inr v)"

text \<open>
  \<open>p.data\<close>: the tensor of a parameter. \<open>None\<close> has no attribute \<open>data\<close>, and
  neither has a number.
\<close>

definition data_of :: "pyval \<Rightarrow> error + tensor" where
  "data_of v = (case v of Parameter T \<Rightarrow> Inr T | _ \<Rightarrow> Inl (AttributeError ''data''))"

text \<open>
  \<open>torch.Tensor(sizes)\<close>: a new tensor of the given sizes. The library leaves its
  entries unspecified; the model fills them with 0, and the constructor of the module
  overwrites every one of them before it returns.
\<close>

definition torch_Tensor :: "store \<Rightarrow> int list \<Rightarrow> error + (store \<times> tensor)" where
  "torch_Tensor st sizes =
     (if list_ex (\<lambda>d. d < 0) sizes then Inl NegativeDimension
      else let shp = map nat sizes in Inr (alloc st shp (replicate (prod_list shp) 0)))"

text \<open>
  The random number generator of the library: the sequence of its draws from the unit
  interval, and how many of them have been used.
\<close>

record generator =
  draws :: "nat \<Rightarrow> real"
  used :: nat

text \<open>
  \<open>Tensor.uniform_(lo, hi)\<close>: every entry is overwritten, in row-major order, with
  the next draw scaled to the interval from \<open>lo\<close> to \<open>hi\<close>.
\<close>

definition torch_uniform ::
  "store \<Rightarrow> generator \<Rightarrow> tensor \<Rightarrow> real \<Rightarrow> real \<Rightarrow> store \<times> generator" where
  "torch_uniform st g T lo hi =
     (let idxs = indices (shape T);
          vals = map (\<lambda>q. lo + (hi - lo) * draws g (used g + q)) [0..<length idxs]
      in (st[storage T := scatter (st ! storage T) (map (offs T) idxs) vals],
          g\<lparr>used := used g + length idxs\<rparr>))"

text \<open>
  \<^verbatim>\<open>
  def __init__(self, input_features, output_features, bias=True):
      super(Linear, self).__init__()
      self.input_features = input_features
      self.output_features = output_features
      self.weight = nn.Parameter(torch.Tensor(output_features, input_features))
      if bias:
          self.bias = nn.Parameter(torch.Tensor(output_features))
      else:
          self.register_parameter('bias', None)
      self.weight.data.uniform_(-0.1, 0.1)
      if bias is not None:
          self.bias.data.uniform_(-0.1, 0.1)
  \<close>
  The argument \<open>bias\<close> is \<open>Some True\<close>, \<open>Some False\<close> or Python's \<open>None\<close>.
\<close>

definition Linear_init ::
  "store \<Rightarrow> generator \<Rightarrow> int \<Rightarrow> int \<Rightarrow> bool option \<Rightarrow>
   error + (store \<times> generator \<times> module)" where
  "Linear_init st g input_features output_features bias =
     (let self0 = [''input_features'' \<mapsto> PyInt input_features,
                    ''output_features'' \<mapsto> PyInt output_features] in
      ebind (torch_Tensor st [output_features, input_features]) (\<lambda>(st1, w).
      let self1 = self0(''weight'' \<mapsto> Parameter w) in
      ebind (if bias = Some True
             then ebind (torch_Tensor st1 [output_features]) (\<lambda>(s, b).
                    Inr (s, self1(''bias'' \<mapsto> Parameter b)))
             else Inr (st1, self1(''bias'' \<mapsto> PyNone))) (\<lambda>(st2, self2).
      ebind (getattr self2 ''weight'') (\<lambda>wv.
      ebind (data_of wv) (\<lambda>wd.
      let (st3, g1) = torch_uniform st2 g wd (- 0.1) 0.1 in
      if bias \<noteq> None
      then ebind (getattr self2 ''bias'') (\<lambda>bv.
           ebind (data_of bv) (\<lambda>bd.
           let (st4, g2) = torch_uniform st3 g1 bd (- 0.1) 0.1 in
           Inr (st4, g2, self2)))
      else Inr (st3, g1, self2))))))"

text \<open>
  \<open>LinearFunction.apply(input, weight, bias)\<close>: the autograd engine makes a new
  context, sets its flags and calls \<open>forward\<close>. The flags come from the engine and are
  an argument here. A weight that is not a tensor, or a bias that is neither a tensor
  nor \<open>None\<close>, is a \<open>TypeError\<close>.
\<close>

definition LinearFunction_apply ::
  "store \<Rightarrow> bool \<times> bool \<times> bool \<Rightarrow> tensor \<Rightarrow> pyval \<Rightarrow> pyval \<Rightarrow>
   error + (store \<times> ctx \<times> tensor)" where
  "LinearFunction_apply st needs input weight bias =
     (let c = \<lparr>saved_tensors = None, needs_input_grad = needs\<rparr> in
      case (weight, bias) of
        (Parameter w, Parameter b) \<Rightarrow> forward st c input w (Some b)
      | (Parameter w, PyNone) \<Rightarrow> forward st c input w None
      | _ \<Rightarrow> Inl TypeError)"

text \<open>
  \<^verbatim>\<open>
  def forward(self, input):
      return LinearFunction.apply(input, self.weight, self.bias)
  \<close>
\<close>

definition Linear_forward ::
  "store \<Rightarrow> bool \<times> bool \<times> bool \<Rightarrow> module \<Rightarrow> tensor \<Rightarrow> error + (store \<times> ctx \<times> tensor)" where
  "Linear_forward st needs self input =
     ebind (getattr self ''weight'') (\<lambda>w.
     ebind (getattr self ''bias'') (\<lambda>b.
     LinearFunction_apply st needs input w b))"

text \<open>
  \<^verbatim>\<open>
  def extra_repr(self):
      return 'in_features={}, out_features={}, bias={}'.format(
          self.in_features, self.out_features, self.bias is not None)
  \<close>
  The arguments of \<open>format\<close> are evaluated from left to right; the result is modelled as
  the format string with its three arguments.
\<close>

definition Linear_extra_repr :: "module \<Rightarrow> error + (string \<times> pyval list)" where
  "Linear_extra_repr self =
     ebind (getattr self ''in_features'') (\<lambda>a.
     ebind (getattr self ''out_features'') (\<lambda>b.
     ebind (getattr self ''bias'') (\<lambda>c.
     Inr (''in_features={}, out_features={}, bias={}'', [a, b, PyBool (c \<noteq> PyNone)]))))"

section \<open>Notions used in the statements\<close>

text \<open>
  \<open>extends st st'\<close>: every storage of \<open>st\<close> is in \<open>st'\<close> at the same address with the
  same contents; \<open>st'\<close> may have new storages after them.
\<close>

definition extends :: "store \<Rightarrow> store \<Rightarrow> bool" where
  "extends st st' \<longleftrightarrow> length st \<le> length st' \<and> take (length st) st' = st"

text \<open>The value of a tensor: its shape and its entries in row-major order.\<close>

definition tensor_value :: "store \<Rightarrow> tensor \<Rightarrow> nat list \<times> real list" where
  "tensor_value st T = (shape T, map (elem st T) (indices (shape T)))"

section \<open>Example inputs\<close>

text \<open>
  A store with a 2 by 3 input, a 2 by 3 weight and a bias of length 2; the same store
  after \<open>forward\<close>, with an upstream gradient of shape 2 by 2 added by the caller.
\<close>

definition ex_store :: store where
  "ex_store = [[1, 2, 3, 4, 5, 6], [1, 0, 1, 0, 1, 0], [10, 20]]"

definition ex_X :: tensor where
  "ex_X = \<lparr>storage = 0, storage_offset = 0, shape = [2, 3], stride = [3, 1]\<rparr>"

definition ex_W :: tensor where
  "ex_W = \<lparr>storage = 1, storage_offset = 0, shape = [2, 3], stride = [3, 1]\<rparr>"

definition ex_b :: tensor where
  "ex_b = \<lparr>storage = 2, storage_offset = 0, shape = [2], stride = [1]\<rparr>"

definition ex_ctx :: ctx where
  "ex_ctx = \<lparr>saved_tensors = None, needs_input_grad = (True, True, True)\<rparr>"

definition ex_store_b :: store where
  "ex_store_b =
     [[1, 2, 3, 4, 5, 6], [1, 0, 1, 0, 1, 0], [10, 20], [14, 22, 20, 25], [1, 2, 3, 4]]"

definition ex_dY :: tensor where
  "ex_dY = \<lparr>storage = 4, storage_offset = 0, shape = [2, 2], stride = [2, 1]\<rparr>"

definition ex_saved :: ctx where
  "ex_saved =
     \<lparr>saved_tensors = Some (ex_X, ex_W, Some ex_b), needs_input_grad = (True, True, True)\<rparr>"

text \<open>
  The scenario of the specification: \<open>W = [[2, 3]]\<close>, \<open>b = [1]\<close>, \<open>X = [[1, 1]]\<close>;
  the upstream gradient \<open>[[1]]\<close> is the storage the caller adds after \<open>forward\<close>.
\<close>

definition sc_store :: store where
  "sc_store = [[1, 1], [2, 3], [1]]"

definition sc_X :: tensor where
  "sc_X = \<lparr>storage = 0, storage_offset = 0, shape = [1, 2], stride = [2, 1]\<rparr>"

definition sc_W :: tensor where
  "sc_W = \<lparr>storage = 1, storage_offset = 0, shape = [1, 2], stride = [2, 1]\<rparr>"

definition sc_b :: tensor where
  "sc_b = \<lparr>storage = 2, storage_offset = 0, shape = [1], stride = [1]\<rparr>"

definition sc_dY :: tensor where
  "sc_dY = \<lparr>storage = 4, storage_offset = 0, shape = [1, 1], stride = [1, 1]\<rparr>"

text \<open>
  A layer with one input and one output feature: \<open>X = [[3], [4]]\<close>, \<open>W = [[7]]\<close>,
  \<open>b = [5]\<close>, the output \<open>[[26], [33]]\<close> of \<open>forward\<close> and an upstream gradient
  \<open>dY = [[1], [2]]\<close>.
\<close>

definition col_store :: store where
  "col_store = [[3, 4], [7], [5], [26, 33], [1, 2]]"

definition col_X :: tensor where
  "col_X = \<lparr>storage = 0, storage_offset = 0, shape = [2, 1], stride = [1, 1]\<rparr>"

definition col_W :: tensor where
  "col_W = \<lparr>storage = 1, storage_offset = 0, shape = [1, 1], stride = [1, 1]\<rparr>"

definition col_b :: tensor where
  "col_b = \<lparr>storage = 2, storage_offset = 0, shape = [1], stride = [1]\<rparr>"

definition col_dY :: tensor where
  "col_dY = \<lparr>storage = 4, storage_offset = 0, shape = [2, 1], stride = [1, 1]\<rparr>"

definition col_ctx :: ctx where
  "col_ctx = \<lparr>saved_tensors = Some (col_X, col_W, Some col_b),
              needs_input_grad = (True, True, True)\<rparr>"

text \<open>A generator whose draws are all 1/4, and an input with two columns.\<close>

definition ex_gen :: generator where
  "ex_gen = \<lparr>draws = (\<lambda>i. 1 / 4), used = 0\<rparr>"

definition ex_X_bad :: tensor where
  "ex_X_bad = \<lparr>storage = 2, storage_offset = 0, shape = [1, 2], stride = [2, 1]\<rparr>"

lemmas ex_defs = ex_store_def ex_X_def ex_W_def ex_b_def ex_ctx_def
  ex_store_b_def ex_dY_def ex_saved_def

lemmas sc_defs = sc_store_def sc_X_def sc_W_def sc_b_def sc_dY_def

lemmas col_defs = col_store_def col_X_def col_W_def col_b_def col_dY_def col_ctx_def

lemmas run_defs = forward_def backward_def ebind_def save_for_backward_def
  torch_t_def torch_mm_def torch_unsqueeze_def torch_expand_as_def torch_expand_def
  torch_iadd_def torch_sum_def torch_squeeze_def alloc_def scatter_def elem_def offs_def
  tensor_value_def Let_def upt_conv_Cons

section \<open>Results and errors\<close>

lemma ebind_return: "ebind (Inr x) f = f x"
  by (simp add: ebind_def)

lemma ebind_Inr: "ebind r f = Inr y \<Longrightarrow> \<exists>x. r = Inr x \<and> f x = Inr y"
  by (cases r) (simp_all add: ebind_def)

section \<open>Lists of rows\<close>

lemma length_concat_rows:
  "(\<And>i. i < m \<Longrightarrow> length (g i) = k) \<Longrightarrow> length (concat (map g [0..<m])) = m * k"
  by (induction m) auto

lemma nth_concat_rows:
  assumes "\<And>i. i < m \<Longrightarrow> length (g i) = k" "i < m" "j < k"
  shows "concat (map g [0..<m]) ! (i * k + j) = g i ! j"
  using assms
proof (induction m)
  case 0
  then show ?case by simp
next
  case (Suc m)
  have len: "length (concat (map g [0..<m])) = m * k"
    using Suc.prems(1) by (simp add: length_concat_rows)
  show ?case
  proof (cases "i < m")
    case True
    have "i * k + j < Suc i * k" using Suc.prems(3) by simp
    also have "\<dots> \<le> m * k" using True by (simp add: Suc_leI mult_le_mono1 del: mult_Suc)
    finally have "i * k + j < m * k" .
    then show ?thesis using Suc True len by (simp add: nth_append)
  next
    case False
    then have "i = m" using Suc.prems(2) by simp
    then show ?thesis using len by (simp add: nth_append)
  qed
qed

lemma concat_rows_upt:
  "concat (map (\<lambda>i. map (\<lambda>j. i * k + j) [0..<k]) [0..<m]) = [0..<m * k]"
proof (induction m)
  case 0
  then show ?case by simp
next
  case (Suc m)
  have row: "map (\<lambda>j. m * k + j) [0..<k] = [m * k..<m * k + k]"
    by (simp add: map_add_upt add.commute)
  have "[0..<m * k + k] = [0..<m * k] @ [m * k..<m * k + k]"
    by (rule upt_add_eq_append) simp
  then have "[0..<Suc m * k] = [0..<m * k] @ [m * k..<m * k + k]"
    by (simp add: add.commute)
  moreover have "concat (map (\<lambda>i. map (\<lambda>j. i * k + j) [0..<k]) [0..<Suc m])
      = concat (map (\<lambda>i. map (\<lambda>j. i * k + j) [0..<k]) [0..<m]) @ map (\<lambda>j. m * k + j) [0..<k]"
    by simp
  ultimately show ?case using Suc row by (simp only:)
qed

section \<open>The tensor operations on matrices\<close>

lemma indices1: "indices [k] = map (\<lambda>j. [j]) [0..<k]"
  by simp

lemma indices2: "indices [m, k] = concat (map (\<lambda>i. map (\<lambda>j. [i, j]) [0..<k]) [0..<m])"
  by (simp add: o_def)


lemma stride2: "length (ss :: nat list) = 2 \<Longrightarrow> \<exists>a b. ss = [a, b]"
  by (cases ss; cases "tl ss") auto

lemma stride1: "length (ss :: nat list) = 1 \<Longrightarrow> \<exists>a. ss = [a]"
  by (cases ss) auto

lemma torch_t_matrix:
  assumes "shape W = [k, n]" "length (stride W) = 2"
  shows "\<exists>Wt. torch_t W = Inr Wt \<and> shape Wt = [n, k] \<and> length (stride Wt) = 2
           \<and> storage Wt = storage W \<and> (\<forall>l j. elem st Wt [l, j] = elem st W [j, l])"
proof -
  obtain a b where "stride W = [a, b]" using assms(2) stride2 by blast
  then show ?thesis using assms(1)
    by (simp add: torch_t_def elem_def offs_def add.commute)
qed

lemma torch_mm_matrix:
  assumes "shape A = [m, n]" "shape B = [n, k]"
  shows "\<exists>st' Y. torch_mm st A B = Inr (st', Y) \<and> length st' = Suc (length st)
           \<and> (\<forall>a<length st. st' ! a = st ! a)
           \<and> storage Y = length st \<and> storage_offset Y = 0 \<and> shape Y = [m, k]
           \<and> stride Y = [k, 1] \<and> length (st' ! storage Y) = m * k
           \<and> (\<forall>i<m. \<forall>j<k. elem st' Y [i, j]
                 = (\<Sum>l\<leftarrow>[0..<n]. elem st A [i, l] * elem st B [l, j]))"
  using assms
  by (simp add: torch_mm_def alloc_def Let_def nth_append length_concat_rows
      elem_def[of "st @ _"] offs_def nth_concat_rows)

lemma offs_contiguous2:
  assumes "storage_offset Y = 0" "shape Y = [m, k]" "stride Y = [k, 1]"
  shows "map (offs Y) (indices (shape Y)) = [0..<m * k]"
proof -
  have "map (offs Y) (indices (shape Y))
      = concat (map (\<lambda>i. map (\<lambda>j. i * k + j) [0..<k]) [0..<m])"
    using assms by (simp add: indices2 map_concat o_def offs_def)
  then show ?thesis by (simp only: concat_rows_upt)
qed

lemma valid_contiguous2:
  assumes "storage Y < length st" "storage_offset Y = 0" "shape Y = [m, k]"
      "stride Y = [k, 1]" "length (st ! storage Y) = m * k"
  shows "valid st Y"
proof -
  have eq: "map (offs Y) (indices (shape Y)) = [0..<m * k]"
    using assms(2,3,4) by (rule offs_contiguous2)
  have "offs Y idx < m * k" if "idx \<in> set (indices (shape Y))" for idx
  proof -
    have "offs Y idx \<in> set (map (offs Y) (indices (shape Y)))"
      using that by (simp only: set_map imageI)
    then show ?thesis unfolding eq by simp
  qed
  then have "list_all (\<lambda>idx. offs Y idx < length (st ! storage Y)) (indices (shape Y))"
    unfolding list_all_iff assms(5) by blast
  moreover have "length (stride Y) = length (shape Y)"
    using assms(3,4) by simp
  ultimately show ?thesis using assms(1) unfolding valid_def by blast
qed


lemma extends_iff:
  "extends st st' \<longleftrightarrow> length st \<le> length st' \<and> (\<forall>a<length st. st' ! a = st ! a)"
  unfolding extends_def by (auto simp: list_eq_iff_nth_eq)

lemma extends_refl: "extends st st"
  by (simp add: extends_iff)

lemma extends_trans: "extends st st1 \<Longrightarrow> extends st1 st2 \<Longrightarrow> extends st st2"
  by (auto simp: extends_iff)

lemma elem_extends: "extends st st' \<Longrightarrow> storage T < length st \<Longrightarrow> elem st' T idx = elem st T idx"
  by (simp add: extends_iff elem_def)

lemma valid_extends: "extends st st' \<Longrightarrow> valid st T \<Longrightarrow> valid st' T"
  by (auto simp: extends_iff valid_def)

lemma torch_mm_step:
  assumes "shape A = [m, n]" "shape B = [n, k]"
  shows "\<exists>st' Y. torch_mm st A B = Inr (st', Y) \<and> extends st st' \<and> valid st' Y
           \<and> shape Y = [m, k]
           \<and> (\<forall>i<m. \<forall>j<k. elem st' Y [i, j]
                 = (\<Sum>l\<leftarrow>[0..<n]. elem st A [i, l] * elem st B [l, j]))"
proof -
  obtain st' Y where mm: "torch_mm st A B = Inr (st', Y)" "length st' = Suc (length st)"
      "\<And>a. a < length st \<Longrightarrow> st' ! a = st ! a"
      "storage Y = length st" "storage_offset Y = 0" "shape Y = [m, k]" "stride Y = [k, 1]"
      "length (st' ! storage Y) = m * k"
      "\<And>i j. i < m \<Longrightarrow> j < k \<Longrightarrow> elem st' Y [i, j]
          = (\<Sum>l\<leftarrow>[0..<n]. elem st A [i, l] * elem st B [l, j])"
    using torch_mm_matrix[OF assms, of st] by blast
  have "storage Y < length st'" using mm(2,4) by simp
  then have "valid st' Y" using mm(5-8) by (rule valid_contiguous2)
  moreover have "extends st st'" using mm(2,3) by (simp add: extends_iff)
  ultimately show ?thesis using mm(1,6,9) by blast
qed

lemma torch_sum0_matrix:
  assumes "shape T = [m, k]"
  shows "\<exists>st' S. torch_sum st 0 T = Inr (st', S) \<and> extends st st' \<and> valid st' S
           \<and> shape S = [k] \<and> length (stride S) = 1
           \<and> (\<forall>j<k. elem st' S [j] = (\<Sum>i\<leftarrow>[0..<m]. elem st T [i, j]))"
  using assms
  by (simp add: torch_sum_def alloc_def Let_def extends_iff nth_append valid_def
      list_all_iff elem_def[of "st @ _"] offs_def)

lemma torch_squeeze0_vector:
  assumes "shape S = [k]" "length (stride S) = 1"
  shows "\<exists>g. torch_squeeze 0 S = Inr g \<and> storage g = storage S
           \<and> shape g = (if k = 1 then [] else [k])
           \<and> length (stride g) = length (shape g)
           \<and> (\<forall>j<k. elem st g (if k = 1 then [] else [j]) = elem st S [j])"
proof -
  obtain s where "stride S = [s]" using assms(2) stride1 by blast
  then show ?thesis using assms(1)
    by (simp add: torch_squeeze_def elem_def offs_def)
qed

lemma torch_squeeze0_valid:
  assumes "shape S = [k]" "valid st S" "torch_squeeze 0 S = Inr g"
  shows "valid st g"
proof -
  have "length (stride S) = 1" using assms(1,2) by (simp add: valid_def)
  then obtain s where "stride S = [s]" using stride1 by blast
  then show ?thesis using assms
    by (auto simp: torch_squeeze_def valid_def offs_def split: if_splits)
qed


section \<open>Values of tensors and unchanged storages\<close>

lemma set_indices2: "idx \<in> set (indices [m, n]) \<longleftrightarrow> (\<exists>i<m. \<exists>l<n. idx = [i, l])"
  by (force simp: indices2)

lemma set_indices1: "idx \<in> set (indices [k]) \<longleftrightarrow> (\<exists>j<k. idx = [j])"
  by (auto simp: indices1)

lemma tensor_value_eqI:
  assumes "shape A = shape B"
    and "\<And>idx. idx \<in> set (indices (shape A)) \<Longrightarrow> elem s1 A idx = elem s2 B idx"
  shows "tensor_value s1 A = tensor_value s2 B"
  using assms by (simp add: tensor_value_def)

lemma tensor_value_extends:
  "extends st st' \<Longrightarrow> storage T < length st \<Longrightarrow> tensor_value st' T = tensor_value st T"
  by (simp add: tensor_value_def elem_extends)

lemma tensor_value_frame:
  "extends st st' \<Longrightarrow> valid st T \<Longrightarrow> tensor_value st' T = tensor_value st T"
  by (simp add: tensor_value_extends valid_def)

section \<open>The backward operation\<close>

lemma backward_run:
  assumes saved: "saved_tensors c = Some (X, W, b)"
    and needs: "needs_input_grad c = (n0, n1, n2)"
    and X: "valid st X" "shape X = [m, n]"
    and W: "valid st W" "shape W = [k, n]"
    and dY: "valid st dY" "shape dY = [m, k]"
  shows "\<exists>st' gi gw gb. backward st c dY = Inr (st', gi, gw, gb) \<and> extends st st'
     \<and> (if n0 then \<exists>dX. gi = Some dX \<and> valid st' dX \<and> shape dX = [m, n]
            \<and> (\<forall>i<m. \<forall>l<n. elem st' dX [i, l]
                  = (\<Sum>j\<leftarrow>[0..<k]. elem st dY [i, j] * elem st W [j, l]))
         else gi = None)
     \<and> (if n1 then \<exists>dW. gw = Some dW \<and> valid st' dW \<and> shape dW = [k, n]
            \<and> (\<forall>j<k. \<forall>l<n. elem st' dW [j, l]
                  = (\<Sum>i\<leftarrow>[0..<m]. elem st dY [i, j] * elem st X [i, l]))
         else gw = None)
     \<and> (if b \<noteq> None \<and> n2 then \<exists>db. gb = Some db \<and> valid st' db
            \<and> shape db = (if k = 1 then [] else [k])
            \<and> (\<forall>j<k. elem st' db (if k = 1 then [] else [j])
                  = (\<Sum>i\<leftarrow>[0..<m]. elem st dY [i, j]))
         else gb = None)"
proof -
  have sX: "storage X < length st" and sW: "storage W < length st"
    and sY: "storage dY < length st" and lY: "length (stride dY) = 2"
    using X W dY by (simp_all add: valid_def)
  let ?step1 = "if n0 then ebind (torch_mm st dY W) (\<lambda>(s, g). Inr (s, Some g)) else Inr (st, None)"
  obtain st1 gi where s1: "?step1 = Inr (st1, gi)" "extends st st1"
    "if n0 then \<exists>dX. gi = Some dX \<and> valid st1 dX \<and> shape dX = [m, n]
            \<and> (\<forall>i<m. \<forall>l<n. elem st1 dX [i, l]
                  = (\<Sum>j\<leftarrow>[0..<k]. elem st dY [i, j] * elem st W [j, l]))
     else gi = None"
  proof (cases n0)
    case True
    obtain s g where "torch_mm st dY W = Inr (s, g)" "extends st s" "valid s g" "shape g = [m, n]"
      "\<forall>i<m. \<forall>l<n. elem s g [i, l] = (\<Sum>j\<leftarrow>[0..<k]. elem st dY [i, j] * elem st W [j, l])"
      using torch_mm_step[OF dY(2) W(2), of st] by blast
    then show ?thesis using True that[of s "Some g"] by (simp add: ebind_def)
  next
    case False
    then show ?thesis using that[of st None] by (simp add: extends_refl)
  qed
  let ?step2 = "\<lambda>st1. if n1 then ebind (torch_t dY) (\<lambda>gt.
                  ebind (torch_mm st1 gt X) (\<lambda>(s, g). Inr (s, Some g))) else Inr (st1, None)"
  obtain st2 gw where s2: "?step2 st1 = Inr (st2, gw)" "extends st1 st2"
    "if n1 then \<exists>dW. gw = Some dW \<and> valid st2 dW \<and> shape dW = [k, n]
            \<and> (\<forall>j<k. \<forall>l<n. elem st2 dW [j, l]
                  = (\<Sum>i\<leftarrow>[0..<m]. elem st dY [i, j] * elem st X [i, l]))
     else gw = None"
  proof (cases n1)
    case True
    obtain gt where gt: "torch_t dY = Inr gt" "shape gt = [k, m]"
      "\<And>j i. elem st1 gt [j, i] = elem st1 dY [i, j]"
      using torch_t_matrix[OF dY(2) lY, of st1] by blast
    obtain s g where mm: "torch_mm st1 gt X = Inr (s, g)" "extends st1 s" "valid s g" "shape g = [k, n]"
      "\<forall>j<k. \<forall>l<n. elem s g [j, l] = (\<Sum>i\<leftarrow>[0..<m]. elem st1 gt [j, i] * elem st1 X [i, l])"
      using torch_mm_step[OF gt(2) X(2), of st1] by blast
    have "elem st1 gt [j, i] = elem st dY [i, j]" for i j
      using gt(3) elem_extends[OF s1(2) sY] by simp
    moreover have "elem st1 X idx = elem st X idx" for idx
      using elem_extends[OF s1(2) sX] by simp
    ultimately have "\<forall>j<k. \<forall>l<n. elem s g [j, l] = (\<Sum>i\<leftarrow>[0..<m]. elem st dY [i, j] * elem st X [i, l])"
      using mm(5) by simp
    then show ?thesis using True gt(1) mm(1-4) that[of s "Some g"] by (simp add: ebind_def)
  next
    case False
    then show ?thesis using that[of st1 None] by (simp add: extends_refl)
  qed
  let ?step3 = "\<lambda>st2. if b \<noteq> None \<and> n2 then ebind (torch_sum st2 0 dY) (\<lambda>(s, sm).
                  ebind (torch_squeeze 0 sm) (\<lambda>g. Inr (s, Some g))) else Inr (st2, None)"
  have e02: "extends st st2" using s1(2) s2(2) by (rule extends_trans)
  obtain st3 gb where s3: "?step3 st2 = Inr (st3, gb)" "extends st2 st3"
    "if b \<noteq> None \<and> n2 then \<exists>db. gb = Some db \<and> valid st3 db
            \<and> shape db = (if k = 1 then [] else [k])
            \<and> (\<forall>j<k. elem st3 db (if k = 1 then [] else [j])
                  = (\<Sum>i\<leftarrow>[0..<m]. elem st dY [i, j]))
     else gb = None"
  proof (cases "b \<noteq> None \<and> n2")
    case True
    obtain s sm where sm: "torch_sum st2 0 dY = Inr (s, sm)" "extends st2 s" "valid s sm"
      "shape sm = [k]" "length (stride sm) = 1"
      "\<forall>j<k. elem s sm [j] = (\<Sum>i\<leftarrow>[0..<m]. elem st2 dY [i, j])"
      using torch_sum0_matrix[OF dY(2), of st2] by blast
    obtain g where g: "torch_squeeze 0 sm = Inr g" "shape g = (if k = 1 then [] else [k])"
      "\<forall>j<k. elem s g (if k = 1 then [] else [j]) = elem s sm [j]"
      using torch_squeeze0_vector[OF sm(4,5), of s] by blast
    have vg: "valid s g" using sm(4,3) g(1) by (rule torch_squeeze0_valid)
    have "elem st2 dY idx = elem st dY idx" for idx
      using elem_extends[OF e02 sY] by simp
    then have "\<forall>j<k. elem s g (if k = 1 then [] else [j]) = (\<Sum>i\<leftarrow>[0..<m]. elem st dY [i, j])"
      using g(3) sm(6) by simp
    then show ?thesis using True sm(1,2) g(1,2) vg that[of s "Some g"] by (simp add: ebind_def)
  next
    case False
    then show ?thesis using that[of st2 None] by (auto simp: extends_refl)
  qed
  have run: "backward st c dY = Inr (st3, gi, gw, gb)"
    using saved needs s1(1) s2(1) s3(1) by (simp add: backward_def ebind_def)
  have e23: "extends st st3" using e02 s3(2) by (rule extends_trans)
  have e13: "extends st1 st3" using s2(2) s3(2) by (rule extends_trans)
  have p1: "if n0 then \<exists>dX. gi = Some dX \<and> valid st3 dX \<and> shape dX = [m, n]
            \<and> (\<forall>i<m. \<forall>l<n. elem st3 dX [i, l]
                  = (\<Sum>j\<leftarrow>[0..<k]. elem st dY [i, j] * elem st W [j, l]))
     else gi = None"
  proof (cases n0)
    case True
    then obtain dX where dX: "gi = Some dX" "valid st1 dX" "shape dX = [m, n]"
      "\<forall>i<m. \<forall>l<n. elem st1 dX [i, l] = (\<Sum>j\<leftarrow>[0..<k]. elem st dY [i, j] * elem st W [j, l])"
      using s1(3) by auto
    have "storage dX < length st1" using dX(2) by (simp add: valid_def)
    then have "elem st3 dX idx = elem st1 dX idx" for idx
      using elem_extends[OF e13] by simp
    then show ?thesis using True dX valid_extends[OF e13 dX(2)] by simp
  next
    case False
    then show ?thesis using s1(3) by simp
  qed
  have p2: "if n1 then \<exists>dW. gw = Some dW \<and> valid st3 dW \<and> shape dW = [k, n]
            \<and> (\<forall>j<k. \<forall>l<n. elem st3 dW [j, l]
                  = (\<Sum>i\<leftarrow>[0..<m]. elem st dY [i, j] * elem st X [i, l]))
         else gw = None"
  proof (cases n1)
    case True
    then obtain dW where dW: "gw = Some dW" "valid st2 dW" "shape dW = [k, n]"
      "\<forall>j<k. \<forall>l<n. elem st2 dW [j, l] = (\<Sum>i\<leftarrow>[0..<m]. elem st dY [i, j] * elem st X [i, l])"
      using s2(3) by auto
    have "storage dW < length st2" using dW(2) by (simp add: valid_def)
    then have "elem st3 dW idx = elem st2 dW idx" for idx
      using elem_extends[OF s3(2)] by simp
    then show ?thesis using True dW valid_extends[OF s3(2) dW(2)] by simp
  next
    case False
    then show ?thesis using s2(3) by simp
  qed
  show ?thesis using run e23 p1 p2 s3(3) by blast
qed

text \<open>
  C3. The gradient of the bias is the column sum of \<open>dY\<close> with the shape of the bias.
  With one output feature the code does not return that shape: \<open>sum(0)\<close> gives shape
  (1) and \<open>squeeze(0)\<close> removes that dimension, so the gradient of a bias of shape (1)
  is a 0-dimensional tensor. Here \<open>dY = [[1], [2]]\<close> and the bias has shape (1): the
  result holds the sum 3, with shape ().
\<close>

theorem backward_bias_gradient_single_output:
  "\<exists>st' dX dW db. backward col_store col_ctx col_dY = Inr (st', Some dX, Some dW, Some db)
      \<and> tensor_value st' db = ([], [3]) \<and> shape db = [] \<and> shape col_b = [1]"
  by (simp add: col_defs run_defs)

text \<open>
  C5. The scenario \<open>W = [[2, 3]]\<close>, \<open>b = [1]\<close>, \<open>X = [[1, 1]]\<close>, \<open>dY = [[1]]\<close>:
  \<open>forward\<close> returns \<open>[[6]]\<close>, and \<open>backward\<close> returns \<open>dX = [[2, 3]]\<close> and
  \<open>dW = [[1, 1]]\<close>; the gradient of the bias holds 1 but is 0-dimensional, not of the
  shape (1) of the bias.
\<close>

theorem scenario_bias_gradient_shape:
  "\<exists>st1 c1 Y. forward sc_store ex_ctx sc_X sc_W (Some sc_b) = Inr (st1, c1, Y)
      \<and> tensor_value st1 Y = ([1, 1], [6])
      \<and> (\<exists>st2 dX dW db.
            backward (st1 @ [[1]]) c1 sc_dY = Inr (st2, Some dX, Some dW, Some db)
          \<and> tensor_value st2 dX = ([1, 2], [2, 3])
          \<and> tensor_value st2 dW = ([1, 2], [1, 1])
          \<and> tensor_value st2 db = ([], [1])
          \<and> shape db = [] \<and> shape sc_b = [1])"
  by (simp add: sc_defs ex_defs run_defs)

text \<open>
  C7. On well-shaped arguments \<open>backward\<close> returns for any flags; a gradient that is not
  requested is \<open>None\<close>; and a gradient requested under two settings of the flags has
  the same value under both, whichever other gradients were skipped.
\<close>

theorem backward_unrequested_absent:
  assumes saved: "saved_tensors c = Some (X, W, b)"
    and X: "valid st X" "shape X = [m, n]"
    and W: "valid st W" "shape W = [k, n]"
    and dY: "valid st dY" "shape dY = [m, k]"
  shows "\<exists>st1 gi gw gb st2 gi' gw' gb'.
       backward st (c\<lparr>needs_input_grad := (n0, n1, n2)\<rparr>) dY = Inr (st1, gi, gw, gb)
     \<and> backward st (c\<lparr>needs_input_grad := (n0', n1', n2')\<rparr>) dY = Inr (st2, gi', gw', gb')
     \<and> (\<not> n0 \<longrightarrow> gi = None) \<and> (\<not> n1 \<longrightarrow> gw = None) \<and> (\<not> n2 \<longrightarrow> gb = None)
     \<and> (n0 \<and> n0' \<longrightarrow> gi \<noteq> None
           \<and> map_option (tensor_value st1) gi = map_option (tensor_value st2) gi')
     \<and> (n1 \<and> n1' \<longrightarrow> gw \<noteq> None
           \<and> map_option (tensor_value st1) gw = map_option (tensor_value st2) gw')
     \<and> (n2 \<and> n2' \<longrightarrow> (b \<noteq> None \<longrightarrow> gb \<noteq> None)
           \<and> map_option (tensor_value st1) gb = map_option (tensor_value st2) gb')"
proof -
  let ?c1 = "c\<lparr>needs_input_grad := (n0, n1, n2)\<rparr>"
  let ?c2 = "c\<lparr>needs_input_grad := (n0', n1', n2')\<rparr>"
  have s1: "saved_tensors ?c1 = Some (X, W, b)" "needs_input_grad ?c1 = (n0, n1, n2)"
    and s2: "saved_tensors ?c2 = Some (X, W, b)" "needs_input_grad ?c2 = (n0', n1', n2')"
    using saved by simp_all
  obtain st1 gi gw gb where r1: "backward st ?c1 dY = Inr (st1, gi, gw, gb)"
    and i1: "if n0 then \<exists>dX. gi = Some dX \<and> valid st1 dX \<and> shape dX = [m, n]
            \<and> (\<forall>i<m. \<forall>l<n. elem st1 dX [i, l]
                  = (\<Sum>j\<leftarrow>[0..<k]. elem st dY [i, j] * elem st W [j, l]))
         else gi = None"
    and w1: "if n1 then \<exists>dW. gw = Some dW \<and> valid st1 dW \<and> shape dW = [k, n]
            \<and> (\<forall>j<k. \<forall>l<n. elem st1 dW [j, l]
                  = (\<Sum>i\<leftarrow>[0..<m]. elem st dY [i, j] * elem st X [i, l]))
         else gw = None"
    and b1: "if b \<noteq> None \<and> n2 then \<exists>db. gb = Some db \<and> valid st1 db
            \<and> shape db = (if k = 1 then [] else [k])
            \<and> (\<forall>j<k. elem st1 db (if k = 1 then [] else [j])
                  = (\<Sum>i\<leftarrow>[0..<m]. elem st dY [i, j]))
         else gb = None"
    using backward_run[OF s1 X W dY] by blast
  obtain st2 gi' gw' gb' where r2: "backward st ?c2 dY = Inr (st2, gi', gw', gb')"
    and i2: "if n0' then \<exists>dX. gi' = Some dX \<and> valid st2 dX \<and> shape dX = [m, n]
            \<and> (\<forall>i<m. \<forall>l<n. elem st2 dX [i, l]
                  = (\<Sum>j\<leftarrow>[0..<k]. elem st dY [i, j] * elem st W [j, l]))
         else gi' = None"
    and w2: "if n1' then \<exists>dW. gw' = Some dW \<and> valid st2 dW \<and> shape dW = [k, n]
            \<and> (\<forall>j<k. \<forall>l<n. elem st2 dW [j, l]
                  = (\<Sum>i\<leftarrow>[0..<m]. elem st dY [i, j] * elem st X [i, l]))
         else gw' = None"
    and b2: "if b \<noteq> None \<and> n2' then \<exists>db. gb' = Some db \<and> valid st2 db
            \<and> shape db = (if k = 1 then [] else [k])
            \<and> (\<forall>j<k. elem st2 db (if k = 1 then [] else [j])
                  = (\<Sum>i\<leftarrow>[0..<m]. elem st dY [i, j]))
         else gb' = None"
    using backward_run[OF s2 X W dY] by blast
  have absent: "(\<not> n0 \<longrightarrow> gi = None) \<and> (\<not> n1 \<longrightarrow> gw = None) \<and> (\<not> n2 \<longrightarrow> gb = None)"
    using i1 w1 b1 by (auto split: if_splits)
  have gi: "gi \<noteq> None \<and> map_option (tensor_value st1) gi = map_option (tensor_value st2) gi'"
    if a: "n0" "n0'"
  proof -
    obtain A where A: "gi = Some A" "shape A = [m, n]"
      "\<forall>i<m. \<forall>l<n. elem st1 A [i, l] = (\<Sum>j\<leftarrow>[0..<k]. elem st dY [i, j] * elem st W [j, l])"
      using i1 a(1) by auto
    obtain B where B: "gi' = Some B" "shape B = [m, n]"
      "\<forall>i<m. \<forall>l<n. elem st2 B [i, l] = (\<Sum>j\<leftarrow>[0..<k]. elem st dY [i, j] * elem st W [j, l])"
      using i2 a(2) by auto
    have "tensor_value st1 A = tensor_value st2 B"
      using A(2,3) B(2,3) by (intro tensor_value_eqI) (auto simp: set_indices2)
    then show ?thesis using A(1) B(1) by simp
  qed
  have gw: "gw \<noteq> None \<and> map_option (tensor_value st1) gw = map_option (tensor_value st2) gw'"
    if a: "n1" "n1'"
  proof -
    obtain A where A: "gw = Some A" "shape A = [k, n]"
      "\<forall>j<k. \<forall>l<n. elem st1 A [j, l] = (\<Sum>i\<leftarrow>[0..<m]. elem st dY [i, j] * elem st X [i, l])"
      using w1 a(1) by auto
    obtain B where B: "gw' = Some B" "shape B = [k, n]"
      "\<forall>j<k. \<forall>l<n. elem st2 B [j, l] = (\<Sum>i\<leftarrow>[0..<m]. elem st dY [i, j] * elem st X [i, l])"
      using w2 a(2) by auto
    have "tensor_value st1 A = tensor_value st2 B"
      using A(2,3) B(2,3) by (intro tensor_value_eqI) (auto simp: set_indices2)
    then show ?thesis using A(1) B(1) by simp
  qed
  have gb: "(b \<noteq> None \<longrightarrow> gb \<noteq> None)
      \<and> map_option (tensor_value st1) gb = map_option (tensor_value st2) gb'"
    if a: "n2" "n2'"
  proof (cases "b = None")
    case True
    then show ?thesis using b1 b2 by simp
  next
    case False
    obtain A where A: "gb = Some A" "shape A = (if k = 1 then [] else [k])"
      "\<forall>j<k. elem st1 A (if k = 1 then [] else [j]) = (\<Sum>i\<leftarrow>[0..<m]. elem st dY [i, j])"
      using b1 False a(1) by auto
    obtain B where B: "gb' = Some B" "shape B = (if k = 1 then [] else [k])"
      "\<forall>j<k. elem st2 B (if k = 1 then [] else [j]) = (\<Sum>i\<leftarrow>[0..<m]. elem st dY [i, j])"
      using b2 False a(2) by auto
    have "tensor_value st1 A = tensor_value st2 B"
    proof (cases "k = 1")
      case True
      then show ?thesis using A(2,3) B(2,3) by (intro tensor_value_eqI) auto
    next
      case False
      then show ?thesis using A(2,3) B(2,3)
        by (intro tensor_value_eqI) (auto simp: set_indices1)
    qed
    then show ?thesis using A(1) B(1) by simp
  qed
  show ?thesis using r1 r2 absent gi gw gb by blast
qed

theorem backward_unrequested_absent_witness:
  "saved_tensors ex_saved = Some (ex_X, ex_W, Some ex_b)
   \<and> valid ex_store_b ex_X \<and> shape ex_X = [2, 3] \<and> valid ex_store_b ex_W \<and> shape ex_W = [2, 3]
   \<and> valid ex_store_b ex_dY \<and> shape ex_dY = [2, 2]
   \<and> (\<exists>st1 gw st2 gi' gw' gb'.
       backward ex_store_b (ex_saved\<lparr>needs_input_grad := (False, True, False)\<rparr>) ex_dY
         = Inr (st1, None, gw, None)
     \<and> backward ex_store_b (ex_saved\<lparr>needs_input_grad := (True, True, True)\<rparr>) ex_dY
         = Inr (st2, gi', gw', gb')
     \<and> gw \<noteq> None \<and> map_option (tensor_value st1) gw = map_option (tensor_value st2) gw')"
proof -
  have s: "saved_tensors ex_saved = Some (ex_X, ex_W, Some ex_b)"
    by (simp add: ex_defs)
  have X: "valid ex_store_b ex_X" "shape ex_X = [2, 3]"
    by (simp_all add: ex_defs valid_def offs_def upt_conv_Cons)
  have W: "valid ex_store_b ex_W" "shape ex_W = [2, 3]"
    by (simp_all add: ex_defs valid_def offs_def upt_conv_Cons)
  have dY: "valid ex_store_b ex_dY" "shape ex_dY = [2, 2]"
    by (simp_all add: ex_defs valid_def offs_def upt_conv_Cons)
  from backward_unrequested_absent[OF s X W dY, of False True False True True True]
    s X W dY show ?thesis by auto
qed

text \<open>
  Without a bias \<open>forward\<close> returns the result of the matrix product as it is: nothing
  is added to it.
\<close>

lemma forward_without_bias:
  "forward st c X W None =
     ebind (torch_t W) (\<lambda>wt. ebind (torch_mm st X wt) (\<lambda>(st1, output).
       Inr (st1, save_for_backward c X W None, output)))"
  by (simp add: forward_def ebind_return cong: sum.case_cong)

text \<open>
  When no bias was retained, \<open>backward\<close> returns no gradient for it, whatever the
  flags are.
\<close>

lemma backward_without_bias:
  assumes "saved_tensors c = Some (X, W, None)" "backward st c dY = Inr (st', gi, gw, gb)"
  shows "gb = None"
proof -
  have "ebind (if fst (needs_input_grad c)
                 then ebind (torch_mm st dY W) (\<lambda>(s, g). Inr (s, Some g))
                 else Inr (st, None)) (\<lambda>(st1, grad_input).
          ebind (if fst (snd (needs_input_grad c))
                 then ebind (torch_t dY) (\<lambda>gt.
                      ebind (torch_mm st1 gt X) (\<lambda>(s, g). Inr (s, Some g)))
                 else Inr (st1, None)) (\<lambda>(st2, grad_weight).
          Inr (st2, grad_input, grad_weight, None))) = Inr (st', gi, gw, gb)"
    using assms by (simp add: backward_def ebind_return)
  then show ?thesis by (auto dest!: ebind_Inr)
qed

section \<open>The module\<close>

lemma forward_size_mismatch:
  assumes "shape X = [m, n']" "shape W = [k, n]" "n' \<noteq> n"
  shows "forward st c X W b = Inl SizeMismatch"
  using assms by (simp add: forward_def torch_t_def torch_mm_def ebind_def)

lemma Linear_init_success:
  assumes "Linear_init st g input_features output_features bias = Inr (st', g', self)"
  shows "0 \<le> input_features \<and> 0 \<le> output_features \<and> bias \<noteq> Some False
     \<and> self ''in_features'' = None \<and> self ''out_features'' = None
     \<and> (\<exists>w. self ''weight'' = Some (Parameter w)
           \<and> shape w = [nat output_features, nat input_features])
     \<and> (\<exists>bv. self ''bias'' = Some bv \<and> (bv = PyNone \<or> (\<exists>b. bv = Parameter b)))"
  using assms
  by (auto simp: Linear_init_def torch_Tensor_def ebind_def alloc_def getattr_def data_of_def
      Let_def split: if_splits prod.splits)

text \<open>
  C4. Constructing the module without a bias is to succeed. In the code it raises
  \<open>AttributeError\<close> for every pair of feature counts: the constructor tests
  \<open>bias is not None\<close> on its boolean argument, which holds for \<open>False\<close>, and then reads
  \<open>self.bias.data\<close> of the bias it has just registered as \<open>None\<close>.
\<close>

theorem Linear_init_without_bias_fails:
  "Linear_init st g (int n) (int k) (Some False) = Inl (AttributeError ''data'')"
  by (simp add: Linear_init_def torch_Tensor_def ebind_def alloc_def getattr_def data_of_def
      Let_def split: prod.splits)

text \<open>
  C6. An input whose number of columns differs from the \<open>input_features\<close> the module
  was constructed with makes \<open>forward\<close> fail with the size mismatch error of the matrix
  product; no result is returned.
\<close>

theorem forward_dimension_mismatch:
  assumes "Linear_init st0 g input_features output_features bias = Inr (st1, g', self)"
    and "shape X = [m, n']" and "int n' \<noteq> input_features"
  shows "Linear_forward st needs self X = Inl SizeMismatch"
proof -
  obtain w bv where w: "self ''weight'' = Some (Parameter w)"
      "shape w = [nat output_features, nat input_features]" "0 \<le> input_features"
    and bv: "self ''bias'' = Some bv" "bv = PyNone \<or> (\<exists>b. bv = Parameter b)"
    using Linear_init_success[OF assms(1)] by blast
  have ne: "n' \<noteq> nat input_features" using assms(3) w(3) by auto
  have "forward st c X w b = Inl SizeMismatch" for c b
    using assms(2) w(2) ne by (rule forward_size_mismatch)
  then show ?thesis using w(1) bv
    by (auto simp: Linear_forward_def LinearFunction_apply_def getattr_def ebind_def)
qed

theorem forward_dimension_mismatch_witness:
  "\<exists>st1 g' self. Linear_init [] ex_gen 3 1 (Some True) = Inr (st1, g', self)
     \<and> shape ex_X_bad = [1, 2] \<and> int 2 \<noteq> 3
     \<and> Linear_forward (st1 @ [[1, 1]]) (False, True, True) self ex_X_bad = Inl SizeMismatch"
proof -
  obtain st1 g' self where i: "Linear_init [] ex_gen 3 1 (Some True) = Inr (st1, g', self)"
    by (simp add: Linear_init_def torch_Tensor_def ebind_def alloc_def getattr_def data_of_def
        torch_uniform_def Let_def)
  have s: "shape ex_X_bad = [1, 2]" by (simp add: ex_X_bad_def)
  have n: "int 2 \<noteq> 3" by simp
  from forward_dimension_mismatch[OF i s n] i s n show ?thesis by blast
qed

text \<open>
  C10. For every constructed module \<open>extra_repr\<close> fails: it reads the attribute
  \<open>in_features\<close>, which construction never sets (it sets \<open>input_features\<close> and
  \<open>output_features\<close>), and \<open>forward\<close> of the module does not change the module.
\<close>

theorem extra_repr_fails:
  assumes "Linear_init st g input_features output_features bias = Inr (st', g', self)"
  shows "Linear_extra_repr self = Inl (AttributeError ''in_features'')
     \<and> getattr self ''in_features'' = Inl (AttributeError ''in_features'')
     \<and> getattr self ''out_features'' = Inl (AttributeError ''out_features'')"
  using Linear_init_success[OF assms]
  by (simp add: Linear_extra_repr_def getattr_def ebind_def)

theorem extra_repr_fails_witness:
  "\<exists>st' g' self. Linear_init [] ex_gen 3 1 (Some True) = Inr (st', g', self)
     \<and> Linear_extra_repr self = Inl (AttributeError ''in_features'')"
proof -
  obtain st' g' self where i: "Linear_init [] ex_gen 3 1 (Some True) = Inr (st', g', self)"
    by (simp add: Linear_init_def torch_Tensor_def ebind_def alloc_def getattr_def data_of_def
        torch_uniform_def Let_def)
  from extra_repr_fails[OF i] i show ?thesis by blast
qed

section \<open>What forward and backward leave unchanged\<close>

lemma torch_mm_frame:
  "torch_mm st A B = Inr (st', Y) \<Longrightarrow> \<exists>d. st' = st @ [d] \<and> storage Y = length st"
  by (auto simp: torch_mm_def alloc_def Let_def split: if_splits)

lemma torch_sum_frame:
  "torch_sum st d T = Inr (st', S) \<Longrightarrow> \<exists>xs. st' = st @ [xs]"
  by (auto simp: torch_sum_def alloc_def Let_def split: if_splits)

lemma torch_iadd_frame:
  "torch_iadd st A B = Inr st' \<Longrightarrow> \<exists>v. st' = st[storage A := v]"
  by (auto simp: torch_iadd_def Let_def split: sum.splits)

lemma extends_append: "extends st (st @ zs)"
  by (simp add: extends_iff nth_append)

lemma forward_frame:
  assumes "forward st c X W b = Inr (st', c', Y)"
  shows "extends st st' \<and> c' = c\<lparr>saved_tensors := Some (X, W, b)\<rparr>"
proof -
  let ?bias = "\<lambda>st1 out. case b of None \<Rightarrow> Inr st1
    | Some bt \<Rightarrow> ebind (torch_unsqueeze 0 bt) (\<lambda>u.
                 ebind (torch_expand_as u out) (\<lambda>e. torch_iadd st1 out e))"
  have "ebind (torch_t W) (\<lambda>wt. ebind (torch_mm st X wt) (\<lambda>(st1, out).
          ebind (?bias st1 out) (\<lambda>st2. Inr (st2, save_for_backward c X W b, out))))
        = Inr (st', c', Y)"
    using assms by (simp add: forward_def)
  then obtain wt where "ebind (torch_mm st X wt) (\<lambda>(st1, out).
          ebind (?bias st1 out) (\<lambda>st2. Inr (st2, save_for_backward c X W b, out)))
        = Inr (st', c', Y)"
    by (blast dest: ebind_Inr)
  then obtain st1 out where mm: "torch_mm st X wt = Inr (st1, out)"
    and bias: "?bias st1 out = Inr st'" and c': "c' = save_for_backward c X W b"
    by (auto dest!: ebind_Inr)
  obtain d where d: "st1 = st @ [d]" "storage out = length st"
    using torch_mm_frame[OF mm] by blast
  have "extends st st'"
  proof (cases b)
    case None
    then have "st' = st @ [d]" using bias d by simp
    then show ?thesis by (simp add: extends_append)
  next
    case (Some bt)
    then obtain e where "torch_iadd st1 out e = Inr st'"
      using bias by (auto dest!: ebind_Inr)
    then obtain v where "st' = st1[storage out := v]"
      using torch_iadd_frame by blast
    then show ?thesis using d by (simp add: extends_append)
  qed
  then show ?thesis using c' by (simp add: save_for_backward_def)
qed

lemma backward_frame:
  assumes "backward st c dY = Inr (st', gs)"
  shows "extends st st'"
proof -
  obtain X W b where saved: "saved_tensors c = Some (X, W, b)"
    using assms by (auto simp: backward_def split: option.splits)
  let ?n0 = "fst (needs_input_grad c)" and ?n1 = "fst (snd (needs_input_grad c))"
  let ?n2 = "snd (snd (needs_input_grad c))"
  obtain st1 gi where s1: "(if ?n0 then ebind (torch_mm st dY W) (\<lambda>(s, g). Inr (s, Some g))
      else Inr (st, None)) = Inr (st1, gi)"
    using assms saved by (auto simp: backward_def ebind_def split: sum.splits)
  obtain st2 gw where s2: "(if ?n1 then ebind (torch_t dY) (\<lambda>gt.
      ebind (torch_mm st1 gt X) (\<lambda>(s, g). Inr (s, Some g))) else Inr (st1, None)) = Inr (st2, gw)"
    using assms saved s1 by (auto simp: backward_def ebind_def split: sum.splits)
  obtain gb where s3: "(if b \<noteq> None \<and> ?n2 then ebind (torch_sum st2 0 dY) (\<lambda>(s, sm).
      ebind (torch_squeeze 0 sm) (\<lambda>g. Inr (s, Some g))) else Inr (st2, None)) = Inr (st', gb)"
    using assms saved s1 s2 by (auto simp: backward_def ebind_def split: sum.splits)
  have "extends st st1" using s1
    by (auto simp: ebind_def extends_refl extends_append split: if_splits sum.splits
        dest!: torch_mm_frame)
  moreover have "extends st1 st2" using s2
    by (auto simp: ebind_def extends_refl extends_append split: if_splits sum.splits
        dest!: torch_mm_frame)
  moreover have "extends st2 st'" using s3
    by (auto simp: ebind_def extends_refl extends_append split: if_splits sum.splits
        dest!: torch_sum_frame)
  ultimately show ?thesis by (blast intro: extends_trans)
qed

text \<open>
  C9. A call of \<open>forward\<close> that returns leaves every storage of the store as it was
  (its result is in a new storage), so the values of \<open>X\<close>, \<open>W\<close> and \<open>b\<close> are
  unchanged; its only other effect is that the context holds \<open>X\<close>, \<open>W\<close> and \<open>b\<close>.
  A call of \<open>backward\<close> that returns leaves every storage as it was, too.
\<close>

theorem forward_backward_frame:
  assumes "valid st X" and "valid st W" and "\<forall>bt. b = Some bt \<longrightarrow> valid st bt"
  shows "(forward st c X W b = Inr (st', c', Y) \<longrightarrow>
            extends st st' \<and> c' = c\<lparr>saved_tensors := Some (X, W, b)\<rparr>
          \<and> tensor_value st' X = tensor_value st X \<and> tensor_value st' W = tensor_value st W
          \<and> (\<forall>bt. b = Some bt \<longrightarrow> tensor_value st' bt = tensor_value st bt))
       \<and> (backward st c dY = Inr (st'', gs) \<longrightarrow>
            extends st st''
          \<and> tensor_value st'' X = tensor_value st X \<and> tensor_value st'' W = tensor_value st W
          \<and> (\<forall>bt. b = Some bt \<longrightarrow> tensor_value st'' bt = tensor_value st bt))"
  using assms forward_frame[of st c X W b st' c' Y] backward_frame[of st c dY st'' gs]
  by (auto simp: tensor_value_frame)

theorem forward_backward_frame_witness:
  "valid ex_store ex_X \<and> valid ex_store ex_W \<and> valid ex_store ex_b
   \<and> (\<exists>st' c' Y. forward ex_store ex_ctx ex_X ex_W (Some ex_b) = Inr (st', c', Y)
        \<and> extends ex_store st'
        \<and> c' = ex_ctx\<lparr>saved_tensors := Some (ex_X, ex_W, Some ex_b)\<rparr>
        \<and> tensor_value st' ex_X = tensor_value ex_store ex_X
        \<and> tensor_value st' ex_W = tensor_value ex_store ex_W
        \<and> tensor_value st' ex_b = tensor_value ex_store ex_b)
   \<and> valid ex_store_b ex_X \<and> valid ex_store_b ex_W \<and> valid ex_store_b ex_b
   \<and> (\<exists>st'' gs. backward ex_store_b ex_saved ex_dY = Inr (st'', gs)
        \<and> extends ex_store_b st''
        \<and> tensor_value st'' ex_X = tensor_value ex_store_b ex_X
        \<and> tensor_value st'' ex_W = tensor_value ex_store_b ex_W
        \<and> tensor_value st'' ex_b = tensor_value ex_store_b ex_b)"
proof -
  have v: "valid ex_store ex_X" "valid ex_store ex_W" "valid ex_store ex_b"
    by (simp_all add: ex_defs valid_def offs_def upt_conv_Cons)
  have vb: "valid ex_store_b ex_X" "valid ex_store_b ex_W" "valid ex_store_b ex_b"
    by (simp_all add: ex_defs valid_def offs_def upt_conv_Cons)
  have b: "\<forall>bt. Some ex_b = Some bt \<longrightarrow> valid ex_store bt"
    and bb: "\<forall>bt. Some ex_b = Some bt \<longrightarrow> valid ex_store_b bt"
    using v vb by simp_all
  obtain st' c' Y where f: "forward ex_store ex_ctx ex_X ex_W (Some ex_b) = Inr (st', c', Y)"
    by (simp add: ex_defs run_defs)
  obtain st'' gs where g: "backward ex_store_b ex_saved ex_dY = Inr (st'', gs)"
    by (simp add: ex_defs run_defs)
  from forward_backward_frame[OF v(1,2) b, where c = ex_ctx and st' = st' and c' = c' and Y = Y]
    forward_backward_frame[OF vb(1,2) bb, where c = ex_saved and dY = ex_dY and st'' = st''
      and gs = gs]
    f g v vb
  show ?thesis by blast
qed

end
